theory Spec2Isabelle
  imports Complex_Main "HOL-Library.Multiset"
begin

section \<open>Model\<close>

subsection \<open>Session cache (tidal_api/app.py)\<close>

text \<open>
  The module keeps two globals, \<^verbatim>\<open>_cached_session\<close> and
  \<^verbatim>\<open>_session_last_validated\<close>; every access happens under
  \<^verbatim>\<open>_session_lock\<close>, so one call is one step on the pair. The session object is
  opaque (type variable \<open>'s\<close>); a \<^verbatim>\<open>BrowserSession\<close> defines neither
  \<^verbatim>\<open>__bool__\<close> nor \<^verbatim>\<open>__len__\<close>, so \<^verbatim>\<open>if _cached_session\<close> tests
  for \<^verbatim>\<open>None\<close>. Clock readings of \<^verbatim>\<open>time.time()\<close> are taken as exact
  numbers of seconds.
\<close>

record 's cache =
  cached_session :: "'s option"
  session_last_validated :: real

definition SESSION_CACHE_TTL :: real where
  "SESSION_CACHE_TTL = 300"

text \<open>
  What \<^verbatim>\<open>BrowserSession()\<close> followed by
  \<^verbatim>\<open>session.login_session_file_auto(SESSION_FILE)\<close> can do inside the
  \<^verbatim>\<open>try\<close> block: raise (the credential file does not parse, the client fails),
  return a false value, or return a true value with the fresh session logged in.
\<close>

datatype 's login_result = LoginRaises string | LoginFalse | LoginOk 's

text \<open>What one call finds outside the cache.\<close>

record 's world =
  now :: real
  file_exists :: bool
  login :: "'s login_result"

text \<open>What one call does outside the cache, in order.\<close>

datatype effect = ProbeCredentialFile | ValidateCredentialFile | PrintStderr string

text \<open>
  A call ends by returning a value (\<open>Inr\<close>) or by raising to its caller (\<open>Inl\<close>,
  with the message of the exception). The \<^verbatim>\<open>try\<close> block is \<open>try_login\<close>;
  \<^verbatim>\<open>except Exception\<close> prints and falls through to the last two lines.
\<close>

definition try_login :: "'s world \<Rightarrow> string + 's option" where
  "try_login w =
     (case login w of
        LoginRaises e \<Rightarrow> Inl e
      | LoginFalse \<Rightarrow> Inr None
      | LoginOk s \<Rightarrow> Inr (Some s))"

definition get_or_create_session ::
  "'s world \<Rightarrow> 's cache \<Rightarrow> (string + 's option) \<times> 's cache \<times> effect list" where
  "get_or_create_session w c =
     (if cached_session c \<noteq> None \<and> now w - session_last_validated c < SESSION_CACHE_TTL
      then (Inr (cached_session c), c, [])
      else if \<not> file_exists w
      then (Inr None, c\<lparr>cached_session := None\<rparr>, [ProbeCredentialFile])
      else
        (case try_login w of
           Inr (Some s) \<Rightarrow>
             (Inr (Some s), c\<lparr>cached_session := Some s, session_last_validated := now w\<rparr>,
              [ProbeCredentialFile, ValidateCredentialFile])
         | Inr None \<Rightarrow>
             (Inr None, c\<lparr>cached_session := None\<rparr>,
              [ProbeCredentialFile, ValidateCredentialFile])
         | Inl e \<Rightarrow>
             (Inr None, c\<lparr>cached_session := None\<rparr>,
              [ProbeCredentialFile, ValidateCredentialFile,
               PrintStderr (''Session validation failed: '' @ e)])))"

definition invalidate_session_cache :: "'s cache \<Rightarrow> 's cache" where
  "invalidate_session_cache c = c\<lparr>cached_session := None, session_last_validated := 0\<rparr>"

subsection \<open>Process supervisor: startup (mcp_server/utils.py)\<close>







text \<open>Method calls on the \<^verbatim>\<open>Popen\<close> handle.\<close>

datatype proc_call = Terminate | Wait | Kill






subsection \<open>Process supervisor: shutdown (mcp_server/utils.py)\<close>

text \<open>
  The global \<^verbatim>\<open>flask_process\<close> is \<^verbatim>\<open>None\<close> or the \<^verbatim>\<open>subprocess.Popen\<close>
  handle of the child. Of the handle's state the field \<^verbatim>\<open>returncode\<close> matters: it
  is \<^verbatim>\<open>None\<close> until the library has collected the child's exit status. The library
  operations follow the documentation of the \<^verbatim>\<open>subprocess\<close> module:
  \<^verbatim>\<open>terminate()\<close> and \<^verbatim>\<open>kill()\<close> are \<^verbatim>\<open>send_signal\<close> with SIGTERM and
  SIGKILL, and \<^verbatim>\<open>send_signal\<close> does nothing if the process has completed, which it
  finds out by polling; \<^verbatim>\<open>wait(timeout=5)\<close> sets and returns \<^verbatim>\<open>returncode\<close>,
  or raises \<^verbatim>\<open>TimeoutExpired\<close> when the child has not exited after 5 seconds.
  What the child does is given by the world of one call: the exit status, if any, that
  the poll inside \<^verbatim>\<open>terminate()\<close>, the wait, and the poll inside \<^verbatim>\<open>kill()\<close>
  find.
\<close>

record popen =
  returncode :: "int option"

datatype signal = SIGTERM | SIGKILL

record shutdown_world =
  seen_by_terminate :: "int option"
  seen_by_wait :: "int option"
  seen_by_kill :: "int option"

definition send_signal :: "signal \<Rightarrow> int option \<Rightarrow> popen \<Rightarrow> popen \<times> signal list" where
  "send_signal sig seen p =
     (case returncode p of
        Some rc \<Rightarrow> (p, [])
      | None \<Rightarrow>
          (case seen of
             Some rc \<Rightarrow> (p\<lparr>returncode := Some rc\<rparr>, [])
           | None \<Rightarrow> (p, [sig])))"

datatype timeout_expired = TimeoutExpired

definition wait_timeout :: "int option \<Rightarrow> popen \<Rightarrow> (timeout_expired + int) \<times> popen" where
  "wait_timeout seen p =
     (case returncode p of
        Some rc \<Rightarrow> (Inr rc, p)
      | None \<Rightarrow>
          (case seen of
             Some rc \<Rightarrow> (Inr rc, p\<lparr>returncode := Some rc\<rparr>)
           | None \<Rightarrow> (Inl TimeoutExpired, p)))"

text \<open>
  \<^verbatim>\<open>shutdown_flask_app\<close> returns or raises (first component), leaves the global as
  the second component (it never assigns it), and has made the calls of the third
  component on the handle, which sent the signals of the fourth to the child.
\<close>

definition shutdown_flask_app ::
  "shutdown_world \<Rightarrow> popen option \<Rightarrow>
     (timeout_expired + unit) \<times> popen option \<times> proc_call list \<times> signal list" where
  "shutdown_flask_app w flask_process =
     (case flask_process of
        None \<Rightarrow> (Inr (), flask_process, [], [])
      | Some p \<Rightarrow>
          (case send_signal SIGTERM (seen_by_terminate w) p of (p1, s1) \<Rightarrow>
             (case wait_timeout (seen_by_wait w) p1 of
                (Inr rc, p2) \<Rightarrow> (Inr (), Some p2, [Terminate, Wait], s1)
              | (Inl TimeoutExpired, p2) \<Rightarrow>
                  (case send_signal SIGKILL (seen_by_kill w) p2 of (p3, s3) \<Rightarrow>
                     (Inr (), Some p3, [Terminate, Wait, Kill], s1 @ s3)))))"

subsection \<open>JSON values\<close>

text \<open>
  Request bodies and tool arguments are parsed JSON: Python's \<^verbatim>\<open>None\<close>, booleans,
  integers, strings, lists and dictionaries (numbers with a fraction are left out; no
  property below looks at one). A dictionary is the list of its items. \<open>truthy\<close> is
  Python's truth test, \<open>dict_get\<close> is \<^verbatim>\<open>dict.get(key, default)\<close>, and
  \<open>type_name\<close> is the name of the value's Python type.
\<close>

datatype jval =
    JNull
  | JBool bool
  | JInt int
  | JStr string
  | JList "jval list"
  | JDict "(string \<times> jval) list"

fun truthy :: "jval \<Rightarrow> bool" where
  "truthy JNull = False"
| "truthy (JBool b) = b"
| "truthy (JInt n) = (n \<noteq> 0)"
| "truthy (JStr s) = (s \<noteq> [])"
| "truthy (JList xs) = (xs \<noteq> [])"
| "truthy (JDict kvs) = (kvs \<noteq> [])"

definition dict_get :: "(string \<times> jval) list \<Rightarrow> string \<Rightarrow> jval \<Rightarrow> jval" where
  "dict_get d k dflt = (case map_of d k of Some v \<Rightarrow> v | None \<Rightarrow> dflt)"

fun type_name :: "jval \<Rightarrow> string" where
  "type_name JNull = ''NoneType''"
| "type_name (JBool b) = ''bool''"
| "type_name (JInt n) = ''int''"
| "type_name (JStr s) = ''str''"
| "type_name (JList xs) = ''list''"
| "type_name (JDict kvs) = ''dict''"

text \<open>A string between single quotes, as the messages of the source have it.\<close>

definition quoted :: "string \<Rightarrow> string" where
  "quoted s = CHR 0x27 # s @ [CHR 0x27]"

text \<open>\<^verbatim>\<open>str.lower()\<close> on the letters A to Z; every other character is kept.\<close>

definition lower_char :: "char \<Rightarrow> char" where
  "lower_char c =
     (case map_of (zip ''ABCDEFGHIJKLMNOPQRSTUVWXYZ'' ''abcdefghijklmnopqrstuvwxyz'') c of
        Some l \<Rightarrow> l
      | None \<Rightarrow> c)"

definition lower :: "string \<Rightarrow> string" where
  "lower s = map lower_char s"

subsection \<open>Batch search: backend route (tidal_api/app.py)\<close>

text \<open>
  The model classes of the client library that \<^verbatim>\<open>model_map\<close> names, and the map
  itself with its default \<^verbatim>\<open>[tidalapi.Track]\<close>; the entry of \<^verbatim>\<open>'all'\<close> is
  \<^verbatim>\<open>None\<close>.
\<close>

datatype media = Track | Album | Artist | Playlist

definition model_map :: "string \<Rightarrow> media list option" where
  "model_map t =
     (if t = ''track'' then Some [Track]
      else if t = ''album'' then Some [Album]
      else if t = ''artist'' then Some [Artist]
      else if t = ''playlist'' then Some [Playlist]
      else if t = ''all'' then None
      else Some [Track])"

text \<open>
  What the session's \<^verbatim>\<open>search\<close> gives back, with every item already passed
  through its \<^verbatim>\<open>format_*_data\<close> helper (items of type \<open>'a\<close>). The top hit is a
  track, an album, an artist, or an object of another class. The runtime of a request is
  the authenticated session, whose \<^verbatim>\<open>search\<close> (with the formatting that follows it
  inside the same \<^verbatim>\<open>try\<close>) returns or raises with a message, and Python's
  \<^verbatim>\<open>str\<close> on values that are not strings; on a string \<^verbatim>\<open>str\<close> is the identity.
  The session is taken as a function of the arguments of the call.
\<close>

datatype 'a top = TopTrack 'a | TopAlbum 'a | TopArtist 'a | TopOther

record 'a found =
  tracks :: "'a list"
  albums :: "'a list"
  artists :: "'a list"
  playlists :: "'a list"
  top_hit :: "'a top option"

record 'a runtime =
  session_search :: "jval \<Rightarrow> media list option \<Rightarrow> int \<Rightarrow> string + 'a found"
  py_repr :: "jval \<Rightarrow> string"

definition py_str :: "'a runtime \<Rightarrow> jval \<Rightarrow> string" where
  "py_str rt v = (case v of JStr s \<Rightarrow> s | _ \<Rightarrow> py_repr rt v)"

text \<open>
  The result object of one query: the dictionary with \<^verbatim>\<open>query\<close>, \<^verbatim>\<open>type\<close> and
  the keys that are present only for non-empty lists, or the error object
  \<^verbatim>\<open>{"query": q, "error": message}\<close>.
\<close>

record 'a response =
  r_query :: jval
  r_type :: jval
  r_tracks :: "'a list option"
  r_albums :: "'a list option"
  r_artists :: "'a list option"
  r_playlists :: "'a list option"
  r_top_hit :: "(string \<times> 'a) option"

datatype 'a item_result = Found "'a response" | Failed jval string

text \<open>
  The \<^verbatim>\<open>try\<close> block of \<^verbatim>\<open>search_single\<close>: \<^verbatim>\<open>search_type.lower()\<close> raises an
  \<^verbatim>\<open>AttributeError\<close> on a value that is not a string.
\<close>

definition nonempty :: "'a list \<Rightarrow> 'a list option" where
  "nonempty xs = (if xs = [] then None else Some xs)"

definition try_search :: "'a runtime \<Rightarrow> int \<Rightarrow> jval \<Rightarrow> jval \<Rightarrow> string + 'a response" where
  "try_search rt limit_per_query q search_type =
     (case search_type of
        JStr t \<Rightarrow>
          (case session_search rt q (model_map (lower t)) limit_per_query of
             Inl e \<Rightarrow> Inl e
           | Inr results \<Rightarrow>
               Inr \<lparr>r_query = q, r_type = search_type,
                    r_tracks = nonempty (tracks results),
                    r_albums = nonempty (albums results),
                    r_artists = nonempty (artists results),
                    r_playlists = nonempty (playlists results),
                    r_top_hit =
                      (case top_hit results of
                         Some (TopTrack d) \<Rightarrow> Some (''track'', d)
                       | Some (TopAlbum d) \<Rightarrow> Some (''album'', d)
                       | Some (TopArtist d) \<Rightarrow> Some (''artist'', d)
                       | _ \<Rightarrow> None)\<rparr>)
      | _ \<Rightarrow> Inl (quoted (type_name search_type) @ '' object has no attribute '' @ quoted ''lower''))"

text \<open>
  \<^verbatim>\<open>search_single\<close> returns (\<open>Inr\<close>) or raises (\<open>Inl\<close>); the lines before its
  \<^verbatim>\<open>try\<close> cannot raise on JSON values, and \<^verbatim>\<open>except Exception\<close> turns everything
  else into an error object.
\<close>

definition query_of :: "'a runtime \<Rightarrow> jval \<Rightarrow> jval" where
  "query_of rt query_obj =
     (case query_obj of JDict d \<Rightarrow> dict_get d ''query'' (JStr '''') | _ \<Rightarrow> JStr (py_str rt query_obj))"

definition search_type_of :: "jval \<Rightarrow> jval" where
  "search_type_of query_obj =
     (case query_obj of JDict d \<Rightarrow> dict_get d ''type'' (JStr ''track'') | _ \<Rightarrow> JStr ''track'')"

definition search_single :: "'a runtime \<Rightarrow> int \<Rightarrow> jval \<Rightarrow> string + 'a item_result" where
  "search_single rt limit_per_query query_obj =
     (let q = query_of rt query_obj;
          search_type = search_type_of query_obj
      in if \<not> truthy q then Inr (Failed q ''Empty query'')
         else (case try_search rt limit_per_query q search_type of
                 Inr response \<Rightarrow> Inr (Found response)
               | Inl e \<Rightarrow> Inr (Failed q e)))"

text \<open>
  One iteration of the loop of \<^verbatim>\<open>batch_search\<close>, with its own \<^verbatim>\<open>try\<close> and
  \<^verbatim>\<open>except\<close>, and the loop that appends to \<^verbatim>\<open>results\<close>.
\<close>

definition run_query :: "'a runtime \<Rightarrow> int \<Rightarrow> jval \<Rightarrow> 'a item_result" where
  "run_query rt limit_per_query q =
     (case search_single rt limit_per_query q of
        Inr result \<Rightarrow> result
      | Inl e \<Rightarrow>
          Failed (case q of JDict d \<Rightarrow> dict_get d ''query'' (JStr (py_str rt q)) | _ \<Rightarrow> JStr (py_str rt q)) e)"

fun batch_loop :: "'a runtime \<Rightarrow> int \<Rightarrow> jval list \<Rightarrow> 'a item_result list \<Rightarrow> 'a item_result list" where
  "batch_loop rt limit_per_query [] results = results"
| "batch_loop rt limit_per_query (q # qs) results =
     batch_loop rt limit_per_query qs (results @ [run_query rt limit_per_query q])"

text \<open>
  The JSON body of the request is an object; \<^verbatim>\<open>queries\<close> may be missing or any
  value, \<^verbatim>\<open>limit_per_query\<close> may be missing or an integer (the tool server sends an
  integer). The route answers with a status code and a body.
\<close>

record batch_request =
  req_queries :: "jval option"
  req_limit_per_query :: "int option"

datatype 'a body = ErrorBody string | ResultsBody "'a item_result list" nat

definition clamp_limit :: "int \<Rightarrow> int" where
  "clamp_limit limit_per_query = min (max 1 limit_per_query) 20"

definition batch_search :: "'a runtime \<Rightarrow> batch_request \<Rightarrow> nat \<times> 'a body" where
  "batch_search session request_data =
     (case req_queries request_data of
        None \<Rightarrow> (400, ErrorBody (''Missing '' @ quoted ''queries'' @ '' in request body''))
      | Some (JList queries) \<Rightarrow>
          if queries = [] then (400, ErrorBody (quoted ''queries'' @ '' must be a non-empty list''))
          else if length queries > 100 then (400, ErrorBody ''Maximum 100 queries per batch'')
          else
            (let limit_per_query =
                   clamp_limit (case req_limit_per_query request_data of None \<Rightarrow> 5 | Some l \<Rightarrow> l);
                 results = batch_loop session limit_per_query queries []
             in (200, ResultsBody results (length results)))
      | Some _ \<Rightarrow> (400, ErrorBody (quoted ''queries'' @ '' must be a non-empty list'')))"

text \<open>The decorator: without a session the route is not entered.\<close>

definition requires_tidal_auth :: "('s \<Rightarrow> nat \<times> 'a body) \<Rightarrow> 's option \<Rightarrow> nat \<times> 'a body" where
  "requires_tidal_auth f session =
     (case session of
        None \<Rightarrow> (401, ErrorBody ''Not authenticated'')
      | Some s \<Rightarrow> f s)"

text \<open>The results list of a body; an error body has none.\<close>

definition the_results :: "'a body \<Rightarrow> 'a item_result list" where
  "the_results b = (case b of ResultsBody rs n \<Rightarrow> rs | ErrorBody e \<Rightarrow> [])"

subsection \<open>Batch search: tool (mcp_server/server.py)\<close>

text \<open>
  The POST to the backend either raises (\<^verbatim>\<open>Timeout\<close>, \<^verbatim>\<open>ConnectionError\<close>,
  anything else) or gives a response with a status code and a JSON body;
  \<^verbatim>\<open>_safe_json\<close> turns a body that does not parse into the empty dictionary, here
  \<open>None\<close>. A status other than 200 and 401 without an \<^verbatim>\<open>error\<close> key reports the
  status code.
\<close>

datatype 'a http_outcome =
    RaisesTimeout
  | RaisesConnectionError
  | RaisesOther string
  | Responds nat "'a body option"

datatype 'a tool_result = ToolError string | ToolHttpError nat | ToolSuccess "'a body"

definition normalize_query :: "jval \<Rightarrow> jval option" where
  "normalize_query q =
     (case q of
        JStr s \<Rightarrow> Some (JDict [(''query'', JStr s), (''type'', JStr ''track'')])
      | JDict d \<Rightarrow>
          (if truthy (dict_get d ''query'' JNull)
           then Some (JDict [(''query'', dict_get d ''query'' JNull),
                             (''type'', dict_get d ''type'' (JStr ''track''))])
           else None)
      | _ \<Rightarrow> None)"

fun normalize_loop :: "jval list \<Rightarrow> jval list \<Rightarrow> jval list" where
  "normalize_loop [] normalized_queries = normalized_queries"
| "normalize_loop (q # qs) normalized_queries =
     normalize_loop qs
       (case normalize_query q of
          Some n \<Rightarrow> normalized_queries @ [n]
        | None \<Rightarrow> normalized_queries)"

definition batch_search_tidal ::
  "(batch_request \<Rightarrow> 'a http_outcome) \<Rightarrow> jval \<Rightarrow> int \<Rightarrow> 'a tool_result" where
  "batch_search_tidal post queries limit_per_query =
     (case queries of
        JList qs \<Rightarrow>
          if qs = [] then ToolError ''queries must be a non-empty list''
          else if length qs > 100 then ToolError ''Maximum 100 queries per batch request''
          else
            (let normalized_queries = normalize_loop qs [] in
             if normalized_queries = [] then ToolError ''No valid queries provided''
             else
               (case post \<lparr>req_queries = Some (JList normalized_queries),
                            req_limit_per_query = Some (min (max 1 limit_per_query) 20)\<rparr> of
                  RaisesTimeout \<Rightarrow> ToolError ''Batch search timed out. Try with fewer queries.''
                | RaisesConnectionError \<Rightarrow> ToolError ''Cannot connect to TIDAL backend service.''
                | RaisesOther e \<Rightarrow> ToolError (''Batch search failed: '' @ e)
                | Responds status_code json \<Rightarrow>
                    if status_code = 401
                    then ToolError ''Not authenticated with TIDAL. Please login first using tidal_login().''
                    else if status_code = 200 then
                      (case json of
                         None \<Rightarrow> ToolError ''Empty response from batch search - Flask may have crashed''
                       | Some data \<Rightarrow> ToolSuccess data)
                    else
                      (case json of
                         Some (ErrorBody msg) \<Rightarrow> ToolError msg
                       | _ \<Rightarrow> ToolHttpError status_code)))
      | _ \<Rightarrow> ToolError ''queries must be a non-empty list'')"

text \<open>
  The POST as the backend of this model serves it: the decorated route on the session that
  the cache hands out, its answer always a JSON body that parses.
\<close>

definition backend :: "'a runtime option \<Rightarrow> batch_request \<Rightarrow> 'a http_outcome" where
  "backend session request_data =
     (case requires_tidal_auth (\<lambda>s. batch_search s request_data) session of
        (status_code, b) \<Rightarrow> Responds status_code (Some b))"

text \<open>The items that the normalisation keeps.\<close>

definition kept :: "jval \<Rightarrow> bool" where
  "kept q = (case q of JStr s \<Rightarrow> True | JDict d \<Rightarrow> truthy (dict_get d ''query'' JNull) | _ \<Rightarrow> False)"

subsection \<open>Batch recommendations (tidal_api/app.py)\<close>

text \<open>
  A formatted track: its identifier, the \<^verbatim>\<open>source_track_id\<close> that
  \<^verbatim>\<open>format_track_data\<close> adds when the seed is a true value, and the other keys
  (title, artist, album, duration, url) as one opaque value.
\<close>

record 'b track_data =
  td_id :: int
  td_source_track_id :: "jval option"
  td_info :: 'b

definition bound_limit :: "int \<Rightarrow> int \<Rightarrow> int" where
  "bound_limit limit max_n = (if limit < 1 then 1 else if limit > max_n then max_n else limit)"

text \<open>
  The radio of a seed (\<^verbatim>\<open>session.track(track_id).get_track_radio(limit)\<close>) returns
  tracks, each an identifier with the rest of its data, or raises; the worker formats
  what it gets and turns an exception into the empty list.
\<close>

definition format_track_data :: "jval \<Rightarrow> int \<times> 'b \<Rightarrow> 'b track_data" where
  "format_track_data source_track_id rec =
     \<lparr>td_id = fst rec,
      td_source_track_id = (if truthy source_track_id then Some source_track_id else None),
      td_info = snd rec\<rparr>"

definition get_track_recommendations ::
  "(jval \<Rightarrow> int \<Rightarrow> string + (int \<times> 'b) list) \<Rightarrow> int \<Rightarrow> jval \<Rightarrow> 'b track_data list" where
  "get_track_recommendations radio limit_per_track track_id =
     (case radio track_id limit_per_track of
        Inr recommendations \<Rightarrow> map (format_track_data track_id) recommendations
      | Inl e \<Rightarrow> [])"

text \<open>
  The two nested loops over the futures as they complete: the inner one over the tracks of
  one future, the outer one over the futures, both on the accumulator
  \<^verbatim>\<open>all_recommendations\<close> with its set \<^verbatim>\<open>seen_track_ids\<close>.
\<close>

fun add_recommendations ::
  "bool \<Rightarrow> 'b track_data list \<Rightarrow> 'b track_data list \<times> int set \<Rightarrow> 'b track_data list \<times> int set" where
  "add_recommendations remove_duplicates [] acc = acc"
| "add_recommendations remove_duplicates (track_data # rest) (all_recommendations, seen_track_ids) =
     (if remove_duplicates \<and> td_id track_data \<in> seen_track_ids
      then add_recommendations remove_duplicates rest (all_recommendations, seen_track_ids)
      else add_recommendations remove_duplicates rest
             (all_recommendations @ [track_data], insert (td_id track_data) seen_track_ids))"

fun merge_completed ::
  "bool \<Rightarrow> 'b track_data list list \<Rightarrow> 'b track_data list \<times> int set \<Rightarrow> 'b track_data list \<times> int set" where
  "merge_completed remove_duplicates [] acc = acc"
| "merge_completed remove_duplicates (track_recommendations # rest) acc =
     merge_completed remove_duplicates rest
       (add_recommendations remove_duplicates track_recommendations acc)"

text \<open>
  The route. The JSON body is an object in which \<^verbatim>\<open>track_ids\<close> may be missing or any
  value, \<^verbatim>\<open>limit_per_track\<close> an integer (20 when missing) and
  \<^verbatim>\<open>remove_duplicates\<close> a boolean (true when missing). With an empty list the thread
  pool is created with \<^verbatim>\<open>max_workers=0\<close>, which raises. The order in which
  \<^verbatim>\<open>as_completed\<close> hands out the futures is given from outside as the list of their
  positions in \<^verbatim>\<open>track_ids\<close>; \<^verbatim>\<open>as_completed\<close> yields every future once, so this
  list is a permutation of the positions.
\<close>

record rec_request =
  req_track_ids :: "jval option"
  req_limit_per_track :: "int option"
  req_remove_duplicates :: "bool option"

datatype 'b rec_body = RecError string | Recommendations "'b track_data list"

definition get_batch_recommendations ::
  "(jval \<Rightarrow> int \<Rightarrow> string + (int \<times> 'b) list) \<Rightarrow> nat list \<Rightarrow> rec_request \<Rightarrow> nat \<times> 'b rec_body" where
  "get_batch_recommendations radio completion_order request_data =
     (case req_track_ids request_data of
        None \<Rightarrow> (400, RecError ''Missing track_ids in request body'')
      | Some (JList track_ids) \<Rightarrow>
          (let limit_per_track =
                 bound_limit (case req_limit_per_track request_data of None \<Rightarrow> 20 | Some l \<Rightarrow> l) 50;
               remove_duplicates =
                 (case req_remove_duplicates request_data of None \<Rightarrow> True | Some b \<Rightarrow> b)
           in if track_ids = []
              then (500, RecError
                     (''Error fetching batch recommendations: '' @
                      ''max_workers must be greater than 0''))
              else
                (let futures = map (get_track_recommendations radio limit_per_track) track_ids;
                     completed = map (\<lambda>k. futures ! k) completion_order
                 in (200, Recommendations
                      (fst (merge_completed remove_duplicates completed ([], {}))))))
      | Some _ \<Rightarrow> (400, RecError ''track_ids must be a list''))"

text \<open>The per-seed results, in the order of the seeds.\<close>

definition seed_results ::
  "(jval \<Rightarrow> int \<Rightarrow> string + (int \<times> 'b) list) \<Rightarrow> int option \<Rightarrow> jval list \<Rightarrow> 'b track_data list list" where
  "seed_results radio l track_ids =
     map (get_track_recommendations radio
            (bound_limit (case l of None \<Rightarrow> 20 | Some n \<Rightarrow> n) 50)) track_ids"

text \<open>
  Deduplication as the specification words it: a track is dropped when its identifier has
  already been accumulated.
\<close>

fun first_occurrences :: "'b track_data list \<Rightarrow> int set \<Rightarrow> 'b track_data list" where
  "first_occurrences [] seen = []"
| "first_occurrences (t # ts) seen =
     (if td_id t \<in> seen then first_occurrences ts seen
      else t # first_occurrences ts (insert (td_id t) seen))"

subsection \<open>Playlists of the user (tidal_api/app.py)\<close>

text \<open>
  Of a playlist object the identifier, the name and \<^verbatim>\<open>last_updated\<close> are explicit;
  \<^verbatim>\<open>last_updated\<close> is a point in time or \<^verbatim>\<open>None\<close>, and the route puts
  \<^verbatim>\<open>None\<close> as well when the attribute is missing. The key \<^verbatim>\<open>last_updated\<close> is
  always present in \<^verbatim>\<open>playlist_info\<close>, so the default of
  \<^verbatim>\<open>x.get('last_updated', '')\<close> is never taken.
\<close>

record 'b playlist =
  pl_id :: string
  pl_name :: string
  pl_last_updated :: "int option"
  pl_more :: 'b

record 'b playlist_info =
  pi_id :: string
  pi_title :: string
  pi_last_updated :: "int option"
  pi_url :: string
  pi_more :: 'b

text \<open>
  Python's \<^verbatim>\<open>sorted(..., key=..., reverse=True)\<close> on keys that are points in time or
  \<^verbatim>\<open>None\<close>. With fewer than two elements nothing is compared. Otherwise every element
  takes part in a comparison, and comparing \<^verbatim>\<open>None\<close> with \<^verbatim>\<open><\<close> raises
  \<^verbatim>\<open>TypeError\<close>. The sort is stable also with \<^verbatim>\<open>reverse=True\<close>: the list is
  reversed, sorted, and reversed again.
\<close>

datatype py_exn = ClientError string | TypeError

definition py_sorted_reverse :: "('a \<Rightarrow> int option) \<Rightarrow> 'a list \<Rightarrow> py_exn + 'a list" where
  "py_sorted_reverse key xs =
     (if length xs < 2 then Inr xs
      else if \<exists>x \<in> set xs. key x = None then Inl TypeError
      else Inr (rev (sort_key (\<lambda>x. the (key x)) (rev xs))))"

text \<open>
  The route on what \<^verbatim>\<open>session.user.playlists()\<close> returns or raises;
  \<^verbatim>\<open>except Exception\<close> answers with status 500.
\<close>

datatype 'b playlists_body = PlaylistsError py_exn | Playlists "'b playlist_info list"

definition playlist_info_of :: "'b playlist \<Rightarrow> 'b playlist_info" where
  "playlist_info_of playlist =
     \<lparr>pi_id = pl_id playlist, pi_title = pl_name playlist,
      pi_last_updated = pl_last_updated playlist,
      pi_url = ''https://tidal.com/playlist/'' @ pl_id playlist,
      pi_more = pl_more playlist\<rparr>"

definition get_user_playlists :: "string + 'b playlist list \<Rightarrow> nat \<times> 'b playlists_body" where
  "get_user_playlists user_playlists =
     (case user_playlists of
        Inl e \<Rightarrow> (500, PlaylistsError (ClientError e))
      | Inr pls \<Rightarrow>
          (let playlist_list = map playlist_info_of pls
           in case py_sorted_reverse pi_last_updated playlist_list of
                Inl e \<Rightarrow> (500, PlaylistsError e)
              | Inr sorted_playlists \<Rightarrow> (200, Playlists sorted_playlists)))"

subsection \<open>Sample data\<close>

text \<open>
  A session whose search fails on the query \<^verbatim>\<open>boom\<close> and otherwise finds one track
  (named by the limit of the call) with a track as top hit, and the result object of such
  a search.
\<close>

definition sample_session :: "nat runtime" where
  "sample_session =
     \<lparr>session_search =
        (\<lambda>q models limit.
           if q = JStr ''boom'' then Inl ''HTTP 500''
           else Inr \<lparr>tracks = [nat limit], albums = [], artists = [], playlists = [],
                     top_hit = Some (TopTrack 7)\<rparr>),
      py_repr = (\<lambda>v. ''?'')\<rparr>"

definition sample_found :: "string \<Rightarrow> string \<Rightarrow> nat item_result" where
  "sample_found q t =
     Found \<lparr>r_query = JStr q, r_type = JStr t, r_tracks = Some [5], r_albums = None,
            r_artists = None, r_playlists = None, r_top_hit = Some (''track'', 7)\<rparr>"



text \<open>Two seeds whose radios share the track 11.\<close>

definition sample_radio :: "jval \<Rightarrow> int \<Rightarrow> string + (int \<times> string) list" where
  "sample_radio track_id limit =
     (if track_id = JInt 1 then Inr [(10, ''a''), (11, ''b'')]
      else if track_id = JInt 2 then Inr [(11, ''b''), (12, ''c'')]
      else Inl ''track not found'')"

definition sample_track :: "int \<Rightarrow> string \<Rightarrow> int \<Rightarrow> string track_data" where
  "sample_track i info seed = \<lparr>td_id = i, td_source_track_id = Some (JInt seed), td_info = info\<rparr>"

section \<open>Properties\<close>

text \<open>The defining equations that evaluate the two batch routes on the sample data.\<close>

lemmas batch_defs = batch_search_def batch_loop.simps run_query_def search_single_def
  try_search_def query_of_def search_type_of_def py_str_def dict_get_def clamp_limit_def
  nonempty_def sample_session_def sample_found_def requires_tidal_auth_def the_results_def

lemmas rec_defs = get_batch_recommendations_def get_track_recommendations_def
  format_track_data_def bound_limit_def sample_radio_def sample_track_def seed_results_def

subsection \<open>Properties of the session cache\<close>

text \<open>
  C1. Within the TTL a cached session is handed back as it is: the cache is unchanged and
  nothing outside it is touched. Without a cached session, or once the TTL has run out,
  the call probes the credential file and, where the file exists, validates it; a session
  is returned only as the outcome of that validation, and then the cache holds exactly
  that session together with the time of this call. And whenever, on such a call, the
  file exists and the validation succeeds with a session, that session is returned, and
  the cached session and the timestamp are replaced together by it and the time of the
  call.
\<close>

theorem get_or_create_session_ttl:
  fixes w :: "'s world" and c :: "'s cache"
  shows "(\<forall>s. cached_session c = Some s \<and> now w - session_last_validated c < 300 \<longrightarrow>
            get_or_create_session w c = (Inr (Some s), c, []))
       \<and> (cached_session c = None \<or> now w - session_last_validated c \<ge> 300 \<longrightarrow>
            (case get_or_create_session w c of (r, c', effs) \<Rightarrow>
               hd effs = ProbeCredentialFile
             \<and> (file_exists w \<longrightarrow> effs ! 1 = ValidateCredentialFile)
             \<and> (\<forall>s. r = Inr (Some s) \<longrightarrow>
                   file_exists w \<and> login w = LoginOk s
                 \<and> take 2 effs = [ProbeCredentialFile, ValidateCredentialFile]
                 \<and> c' = c\<lparr>cached_session := Some s, session_last_validated := now w\<rparr>)))
       \<and> (\<forall>s. (cached_session c = None \<or> now w - session_last_validated c \<ge> 300)
              \<and> file_exists w \<and> login w = LoginOk s \<longrightarrow>
            get_or_create_session w c
            = (Inr (Some s),
               c\<lparr>cached_session := Some s, session_last_validated := now w\<rparr>,
               [ProbeCredentialFile, ValidateCredentialFile]))"
  by (auto simp: get_or_create_session_def try_login_def SESSION_CACHE_TTL_def
           split: login_result.splits)

theorem get_or_create_session_ttl_witness:
  "get_or_create_session \<lparr>now = 400, file_exists = False, login = LoginFalse\<rparr>
       \<lparr>cached_session = Some (7::nat), session_last_validated = 101\<rparr>
     = (Inr (Some 7), \<lparr>cached_session = Some 7, session_last_validated = 101\<rparr>, [])
   \<and> get_or_create_session \<lparr>now = 401, file_exists = True, login = LoginOk 8\<rparr>
       \<lparr>cached_session = Some (7::nat), session_last_validated = 101\<rparr>
     = (Inr (Some 8), \<lparr>cached_session = Some 8, session_last_validated = 401\<rparr>,
        [ProbeCredentialFile, ValidateCredentialFile])"
  using get_or_create_session_ttl
          [of "\<lparr>cached_session = Some (7::nat), session_last_validated = 101\<rparr>"
              "\<lparr>now = 400, file_exists = False, login = LoginFalse\<rparr>"]
        get_or_create_session_ttl
          [of "\<lparr>cached_session = Some (7::nat), session_last_validated = 101\<rparr>"
              "\<lparr>now = 401, file_exists = True, login = LoginOk 8\<rparr>"]
  by (simp add: get_or_create_session_def try_login_def SESSION_CACHE_TTL_def)

text \<open>
  C4. No call raises to its caller: the result is always a returned value. When the call
  does not hit the cache and the credential file is missing, or the validation raises
  (as it does on a file that does not parse), or the validation returns a false value,
  the call returns \<^verbatim>\<open>None\<close> and leaves the cache without a session.
\<close>

theorem get_or_create_session_never_raises:
  fixes w :: "'s world" and c :: "'s cache"
  shows "(\<exists>r. fst (get_or_create_session w c) = Inr r)
       \<and> ((cached_session c = None \<or> now w - session_last_validated c \<ge> 300)
          \<and> (\<not> file_exists w \<or> login w = LoginFalse \<or> (\<exists>e. login w = LoginRaises e)) \<longrightarrow>
            fst (get_or_create_session w c) = Inr None
          \<and> cached_session (fst (snd (get_or_create_session w c))) = None)"
  by (auto simp: get_or_create_session_def try_login_def SESSION_CACHE_TTL_def
           split: login_result.splits)

theorem get_or_create_session_never_raises_witness:
  "get_or_create_session \<lparr>now = 500, file_exists = True, login = LoginRaises ''bad json''\<rparr>
       \<lparr>cached_session = Some (7::nat), session_last_validated = 101\<rparr>
     = (Inr None, \<lparr>cached_session = None, session_last_validated = 101\<rparr>,
        [ProbeCredentialFile, ValidateCredentialFile,
         PrintStderr ''Session validation failed: bad json''])
   \<and> fst (get_or_create_session \<lparr>now = 500, file_exists = False, login = LoginOk 8\<rparr>
       \<lparr>cached_session = Some (7::nat), session_last_validated = 101\<rparr>) = Inr None
   \<and> fst (get_or_create_session \<lparr>now = 500, file_exists = True, login = LoginFalse\<rparr>
       \<lparr>cached_session = Some (7::nat), session_last_validated = 101\<rparr>) = Inr None"
  using get_or_create_session_never_raises
          [of "\<lparr>now = 500, file_exists = True, login = LoginRaises ''bad json''\<rparr>"
              "\<lparr>cached_session = Some (7::nat), session_last_validated = 101\<rparr>"]
        get_or_create_session_never_raises
          [of "\<lparr>now = 500, file_exists = False, login = LoginOk 8\<rparr>"
              "\<lparr>cached_session = Some (7::nat), session_last_validated = 101\<rparr>"]
        get_or_create_session_never_raises
          [of "\<lparr>now = 500, file_exists = True, login = LoginFalse\<rparr>"
              "\<lparr>cached_session = Some (7::nat), session_last_validated = 101\<rparr>"]
  by (simp add: get_or_create_session_def try_login_def SESSION_CACHE_TTL_def)

text \<open>
  C7. \<^verbatim>\<open>invalidate_session_cache\<close> leaves the cache with no session and the
  timestamp 0, both in one step. The next call, at whatever time, does not hit the cache:
  it probes the credential file, validates it where it exists, and returns a session only
  as the outcome of that validation; this holds also when the cache held a session
  validated less than the TTL ago.
\<close>

theorem invalidate_forces_revalidation:
  fixes w :: "'s world" and c :: "'s cache"
  shows "invalidate_session_cache c = \<lparr>cached_session = None, session_last_validated = 0\<rparr>
       \<and> (case get_or_create_session w (invalidate_session_cache c) of (r, c', effs) \<Rightarrow>
             hd effs = ProbeCredentialFile
           \<and> (file_exists w \<longrightarrow> effs ! 1 = ValidateCredentialFile)
           \<and> (\<forall>s. r = Inr (Some s) \<longrightarrow>
                 file_exists w \<and> login w = LoginOk s
               \<and> c' = \<lparr>cached_session = Some s, session_last_validated = now w\<rparr>))"
  by (auto simp: get_or_create_session_def invalidate_session_cache_def try_login_def
           split: login_result.splits)

theorem invalidate_forces_revalidation_witness:
  "get_or_create_session \<lparr>now = 110, file_exists = True, login = LoginOk 8\<rparr>
       \<lparr>cached_session = Some (7::nat), session_last_validated = 101\<rparr>
     = (Inr (Some 7), \<lparr>cached_session = Some 7, session_last_validated = 101\<rparr>, [])
   \<and> get_or_create_session \<lparr>now = 110, file_exists = True, login = LoginOk 8\<rparr>
       (invalidate_session_cache \<lparr>cached_session = Some (7::nat), session_last_validated = 101\<rparr>)
     = (Inr (Some 8), \<lparr>cached_session = Some 8, session_last_validated = 110\<rparr>,
        [ProbeCredentialFile, ValidateCredentialFile])"
  using invalidate_forces_revalidation
          [of "\<lparr>cached_session = Some (7::nat), session_last_validated = 101\<rparr>"
              "\<lparr>now = 110, file_exists = True, login = LoginOk 8\<rparr>"]
  by (simp add: get_or_create_session_def invalidate_session_cache_def try_login_def
        SESSION_CACHE_TTL_def)

subsection \<open>Properties of the startup\<close>









subsection \<open>Properties of the shutdown\<close>

text \<open>
  C8, as stated, fails. A child that ignores SIGTERM for the 5 seconds of grace is sent
  SIGKILL by the first call, which does not wait for it; the handle stays in the global
  with \<^verbatim>\<open>returncode\<close> unset. A second call right after it, whose poll does not yet
  find the child exited, sends SIGTERM a second time.
\<close>

theorem shutdown_twice_counterexample:
  "shutdown_flask_app \<lparr>seen_by_terminate = None, seen_by_wait = None, seen_by_kill = None\<rparr>
       (Some \<lparr>returncode = None\<rparr>)
     = (Inr (), Some \<lparr>returncode = None\<rparr>, [Terminate, Wait, Kill], [SIGTERM, SIGKILL])
   \<and> shutdown_flask_app \<lparr>seen_by_terminate = None, seen_by_wait = Some (-9), seen_by_kill = None\<rparr>
       (fst (snd (shutdown_flask_app
          \<lparr>seen_by_terminate = None, seen_by_wait = None, seen_by_kill = None\<rparr>
          (Some \<lparr>returncode = None\<rparr>))))
     = (Inr (), Some \<lparr>returncode = Some (-9)\<rparr>, [Terminate, Wait], [SIGTERM])"
  by (simp add: shutdown_flask_app_def send_signal_def wait_timeout_def)

text \<open>
  C8, amended. Neither of two calls in succession raises. The handle is never cleared: a
  second call on a started backend calls \<^verbatim>\<open>terminate()\<close> and \<^verbatim>\<open>wait\<close> on it
  again. The second call sends no signal and changes nothing when no backend was started,
  or when the first call left the child's exit status collected: the handle had it
  already, or the first call's \<^verbatim>\<open>terminate()\<close>, \<^verbatim>\<open>wait\<close> or \<^verbatim>\<open>kill()\<close>
  found the child exited.
\<close>

theorem shutdown_twice:
  assumes "shutdown_flask_app w1 fp = (r1, fp1, calls1, sigs1)"
      and "shutdown_flask_app w2 fp1 = (r2, fp2, calls2, sigs2)"
  shows "r1 = Inr () \<and> r2 = Inr ()
       \<and> (fp = None \<longrightarrow> fp1 = None \<and> calls2 = [])
       \<and> (fp \<noteq> None \<longrightarrow> fp1 \<noteq> None \<and> take 2 calls2 = [Terminate, Wait])
       \<and> (fp = None \<or> (\<exists>p rc. fp = Some p \<and> returncode p = Some rc)
          \<or> seen_by_terminate w1 \<noteq> None \<or> seen_by_wait w1 \<noteq> None \<or> seen_by_kill w1 \<noteq> None
          \<longrightarrow> sigs2 = [] \<and> fp2 = fp1)"
  using assms
  by (auto simp: shutdown_flask_app_def send_signal_def wait_timeout_def
           split: option.splits prod.splits sum.splits timeout_expired.splits)

theorem shutdown_twice_witness:
  "shutdown_flask_app \<lparr>seen_by_terminate = None, seen_by_wait = Some 0, seen_by_kill = None\<rparr>
       (Some \<lparr>returncode = None\<rparr>)
     = (Inr (), Some \<lparr>returncode = Some 0\<rparr>, [Terminate, Wait], [SIGTERM])
   \<and> shutdown_flask_app \<lparr>seen_by_terminate = None, seen_by_wait = None, seen_by_kill = None\<rparr>
       (Some \<lparr>returncode = Some 0\<rparr>)
     = (Inr (), Some \<lparr>returncode = Some 0\<rparr>, [Terminate, Wait], [])"
proof -
  have a: "shutdown_flask_app \<lparr>seen_by_terminate = None, seen_by_wait = Some 0, seen_by_kill = None\<rparr>
       (Some \<lparr>returncode = None\<rparr>)
     = (Inr (), Some \<lparr>returncode = Some 0\<rparr>, [Terminate, Wait], [SIGTERM])"
    by (simp add: shutdown_flask_app_def send_signal_def wait_timeout_def)
  have b: "shutdown_flask_app \<lparr>seen_by_terminate = None, seen_by_wait = None, seen_by_kill = None\<rparr>
       (Some \<lparr>returncode = Some 0\<rparr>)
     = (Inr (), Some \<lparr>returncode = Some 0\<rparr>, [Terminate, Wait], [])"
    by (simp add: shutdown_flask_app_def send_signal_def wait_timeout_def)
  from shutdown_twice [OF a b] a b show ?thesis by simp
qed

subsection \<open>Properties of the batch search\<close>

lemma batch_loop_map:
  "batch_loop rt lpq qs results = results @ map (run_query rt lpq) qs"
  by (induction qs arbitrary: results) simp_all

lemma batch_search_results:
  assumes "qs \<noteq> []" and "length qs \<le> 100"
  shows "batch_search rt \<lparr>req_queries = Some (JList qs), req_limit_per_query = l\<rparr>
         = (200, ResultsBody
              (map (run_query rt (clamp_limit (case l of None \<Rightarrow> 5 | Some l \<Rightarrow> l))) qs) (length qs))"
  using assms by (simp add: batch_search_def batch_loop_map Let_def)

text \<open>
  C3. An authenticated batch search over \<open>N\<close> query items, \<open>1 \<le> N \<le> 100\<close>, answers
  with status 200, a total of \<open>N\<close> and exactly \<open>N\<close> results, and the result at position
  \<open>i\<close> is the one result that the route gives for the query at position \<open>i\<close> submitted
  alone, be it a result object or an error object.
\<close>

theorem batch_search_order:
  assumes "qs \<noteq> []" and "length qs \<le> 100"
  shows "\<exists>rs. requires_tidal_auth
                (\<lambda>session. batch_search session
                   \<lparr>req_queries = Some (JList qs), req_limit_per_query = l\<rparr>) (Some rt)
              = (200, ResultsBody rs (length qs))
           \<and> length rs = length qs
           \<and> (\<forall>i<length qs.
                 batch_search rt \<lparr>req_queries = Some (JList [qs ! i]), req_limit_per_query = l\<rparr>
                 = (200, ResultsBody [rs ! i] 1))"
  using assms by (simp add: batch_search_results requires_tidal_auth_def)

theorem batch_search_order_witness:
  "batch_search sample_session
     \<lparr>req_queries = Some (JList [JStr ''a'', JStr ''boom'',
                                 JDict [(''query'', JStr ''c''), (''type'', JStr ''ALBUM'')]]),
      req_limit_per_query = None\<rparr>
   = (200, ResultsBody [sample_found ''a'' ''track'', Failed (JStr ''boom'') ''HTTP 500'',
                        sample_found ''c'' ''ALBUM''] 3)"
  using batch_search_order
          [of "[JStr ''a'', JStr ''boom'',
                JDict [(''query'', JStr ''c''), (''type'', JStr ''ALBUM'')]]" None sample_session]
  by (simp add: batch_defs)

text \<open>
  C5. In a batch of \<open>1 \<le> N \<le> 100\<close> items the route answers with status 200 and
  \<open>N\<close> results whatever the items do. When processing the item at position \<open>i\<close>
  raises (in the search, in the formatting, or on a type that is not a string), the slot
  \<open>i\<close> holds the error object with this item's query and the message of the
  exception. Every other slot is the same whatever stands at position \<open>i\<close>.
\<close>

theorem batch_search_isolates_failures:
  fixes rt :: "'a runtime" and l :: "int option"
  assumes "qs \<noteq> []" and "length qs \<le> 100" and "i < length qs"
  shows "\<exists>rs. batch_search rt \<lparr>req_queries = Some (JList qs), req_limit_per_query = l\<rparr>
              = (200, ResultsBody rs (length qs))
       \<and> length rs = length qs
       \<and> (\<forall>e. truthy (query_of rt (qs ! i))
              \<and> try_search rt (clamp_limit (case l of None \<Rightarrow> 5 | Some n \<Rightarrow> n))
                   (query_of rt (qs ! i)) (search_type_of (qs ! i)) = Inl e \<longrightarrow>
              rs ! i = Failed (query_of rt (qs ! i)) e)
       \<and> (\<forall>other j. j < length qs \<and> j \<noteq> i \<longrightarrow>
              the_results (snd (batch_search rt
                \<lparr>req_queries = Some (JList (qs[i := other])), req_limit_per_query = l\<rparr>)) ! j
              = rs ! j)"
  using assms
  by (auto simp: batch_search_results the_results_def run_query_def search_single_def
        Let_def nth_list_update map_update)

theorem batch_search_isolates_failures_witness:
  "try_search sample_session 5 (JStr ''boom'') (JStr ''track'') = Inl ''HTTP 500''
   \<and> batch_search sample_session
     \<lparr>req_queries = Some (JList [JStr ''a'', JStr ''boom'', JStr ''c'']),
      req_limit_per_query = Some 5\<rparr>
   = (200, ResultsBody [sample_found ''a'' ''track'', Failed (JStr ''boom'') ''HTTP 500'',
                        sample_found ''c'' ''track''] 3)"
  using batch_search_isolates_failures
          [of "[JStr ''a'', JStr ''boom'', JStr ''c'']" 1 sample_session "Some 5"]
  by (simp add: batch_defs)

subsection \<open>Properties of the tool's normalisation\<close>

lemma normalize_query_kept: "normalize_query q \<noteq> None \<longleftrightarrow> kept q"
  by (simp add: normalize_query_def kept_def split: jval.splits)

lemma normalize_loop_map_filter:
  "normalize_loop qs acc = acc @ List.map_filter normalize_query qs"
  by (induction qs arbitrary: acc) (simp_all add: List.map_filter_simps split: option.splits)

lemma normalize_query_Some_kept: "(\<exists>y. normalize_query q = Some y) \<longleftrightarrow> kept q"
  using normalize_query_kept [of q] by auto

lemma normalize_loop_kept:
  "normalize_loop qs [] = map (the \<circ> normalize_query) (filter kept qs)"
  by (simp add: normalize_loop_map_filter List.map_filter_def normalize_query_Some_kept)

lemma search_single_normalized:
  assumes "kept q"
  shows "search_single rt n (the (normalize_query q)) = search_single rt n q"
proof (cases q)
  case (JStr s)
  then show ?thesis
    by (simp add: normalize_query_def search_single_def query_of_def search_type_of_def
          py_str_def dict_get_def)
next
  case (JDict d)
  with assms have t: "truthy (dict_get d ''query'' JNull)" by (simp add: kept_def)
  then obtain v where v: "map_of d ''query'' = Some v"
    by (auto simp: dict_get_def split: option.splits)
  show ?thesis
    using t v JDict
    by (simp add: normalize_query_def search_single_def query_of_def search_type_of_def
          dict_get_def)
qed (use assms in \<open>simp_all add: kept_def\<close>)

lemma search_single_returns: "\<exists>r. search_single rt n q = Inr r"
  by (simp add: search_single_def Let_def split: sum.splits)

lemma run_query_normalized:
  "kept q \<Longrightarrow> run_query rt n (the (normalize_query q)) = run_query rt n q"
  using search_single_returns [of rt n q]
  by (auto simp: run_query_def search_single_normalized)

text \<open>
  C10. For a list of 1 to 100 items: when no item is a string or a dictionary with a true
  \<^verbatim>\<open>query\<close>, the tool returns the error "No valid queries provided" and sends
  nothing. Otherwise the call behaves as if the other items had never been submitted;
  against the backend with a session it returns one result per kept item, in order, and
  no slot for a dropped one, so fewer results than submitted items as soon as one item is
  dropped.
\<close>

theorem batch_search_tidal_drops_items:
  fixes rt :: "'a runtime"
  assumes "qs \<noteq> []" and "length qs \<le> 100"
  shows "(if \<forall>q \<in> set qs. \<not> kept q
          then batch_search_tidal post (JList qs) l = ToolError ''No valid queries provided''
          else batch_search_tidal post (JList qs) l
               = batch_search_tidal post (JList (filter kept qs)) l
             \<and> batch_search_tidal (backend (Some rt)) (JList qs) l
               = ToolSuccess (ResultsBody
                   (map (run_query rt (min (max 1 l) 20)) (filter kept qs))
                   (length (filter kept qs))))
       \<and> ((\<exists>q \<in> set qs. \<not> kept q) \<longrightarrow> length (filter kept qs) < length qs)"
proof -
  let ?ks = "filter kept qs"
  let ?ns = "map (the \<circ> normalize_query) ?ks"
  have len: "length ?ks \<le> 100" using assms(2) length_filter_le [of kept qs] by linarith
  have drop_all: "(\<forall>q \<in> set qs. \<not> kept q) \<longleftrightarrow> ?ks = []"
    by (simp add: filter_empty_conv)
  have again: "normalize_loop ?ks [] = ?ns"
    by (simp add: normalize_loop_kept)
  have fewer: "(\<exists>q \<in> set qs. \<not> kept q) \<longrightarrow> length ?ks < length qs"
    by (auto intro: length_filter_less)
  show ?thesis
  proof (cases "?ks = []")
    case True
    then have "\<forall>q \<in> set qs. \<not> kept q" using drop_all by blast
    moreover have "batch_search_tidal post (JList qs) l = ToolError ''No valid queries provided''"
      using assms True by (simp add: batch_search_tidal_def normalize_loop_kept)
    ultimately show ?thesis using fewer by simp
  next
    case False
    have same: "batch_search_tidal post (JList qs) l = batch_search_tidal post (JList ?ks) l"
      using assms False len by (simp add: batch_search_tidal_def normalize_loop_kept again)
    have ns: "?ns \<noteq> []" "length ?ns \<le> 100" using False len by simp_all
    have run: "map (run_query rt (min (max 1 l) 20)) ?ns
               = map (run_query rt (min (max 1 l) 20)) ?ks"
      by (simp add: run_query_normalized)
    have clamp: "clamp_limit (min (max 1 l) 20) = min (max 1 l) 20"
      by (simp add: clamp_limit_def)
    have e2e: "batch_search_tidal (backend (Some rt)) (JList qs) l
               = ToolSuccess (ResultsBody (map (run_query rt (min (max 1 l) 20)) ?ks) (length ?ks))"
      using assms False ns run
      by (simp add: batch_search_tidal_def normalize_loop_kept backend_def
            requires_tidal_auth_def batch_search_results clamp)
    have "\<not> (\<forall>q \<in> set qs. \<not> kept q)" using False drop_all by blast
    then show ?thesis using same e2e fewer by (simp only: if_False)
  qed
qed

theorem batch_search_tidal_drops_items_witness:
  "batch_search_tidal (backend (Some sample_session))
     (JList [JStr ''a'', JInt 3, JDict [(''type'', JStr ''album'')], JStr ''c'']) 5
   = ToolSuccess (ResultsBody [sample_found ''a'' ''track'', sample_found ''c'' ''track''] 2)
   \<and> batch_search_tidal (backend (Some sample_session)) (JList [JInt 3, JNull]) 5
   = ToolError ''No valid queries provided''"
  using batch_search_tidal_drops_items
          [of "[JStr ''a'', JInt 3, JDict [(''type'', JStr ''album'')], JStr ''c'']"
              "backend (Some sample_session)" 5 sample_session]
        batch_search_tidal_drops_items
          [of "[JInt 3, JNull]" "backend (Some sample_session)" 5 sample_session]
  by (simp add: batch_defs batch_search_tidal_def backend_def normalize_query_def kept_def)

subsection \<open>Properties of the batch recommendations\<close>

lemma add_recommendations_append:
  "add_recommendations rd (ts @ us) acc
   = add_recommendations rd us (add_recommendations rd ts acc)"
  by (induction rd ts acc rule: add_recommendations.induct) simp_all

lemma merge_completed_concat:
  "merge_completed rd rs acc = add_recommendations rd (concat rs) acc"
  by (induction rs arbitrary: acc) (simp_all add: add_recommendations_append)

lemma add_recommendations_keep:
  "add_recommendations False ts (out, seen) = (out @ ts, seen \<union> td_id ` set ts)"
  by (induction ts arbitrary: out seen) simp_all

lemma add_recommendations_dedup:
  "fst (add_recommendations True ts (out, seen)) = out @ first_occurrences ts seen"
  by (induction ts arbitrary: out seen) simp_all

lemma first_occurrences_ids:
  "set (map td_id (first_occurrences ts seen)) = td_id ` set ts - seen"
  by (induction ts arbitrary: seen) auto

lemma first_occurrences_distinct: "distinct (map td_id (first_occurrences ts seen))"
  by (induction ts arbitrary: seen) (auto simp: first_occurrences_ids simp del: set_map)

lemma first_occurrences_find:
  "find (\<lambda>t. td_id t = x) (first_occurrences ts seen)
   = (if x \<in> seen then None else find (\<lambda>t. td_id t = x) ts)"
proof (induction ts arbitrary: seen)
  case Nil
  show ?case by simp
next
  case (Cons t ts)
  show ?case by (auto simp: Cons.IH)
qed

lemma count_list_distinct:
  "distinct xs \<Longrightarrow> count_list xs x = (if x \<in> set xs then 1 else 0)"
  by (induction xs) auto

lemma completed_mset:
  assumes "mset order = mset [0..<length futures]"
  shows "mset (map (\<lambda>k. futures ! k) order) = mset futures"
proof -
  have "mset (map (\<lambda>k. futures ! k) order) = image_mset (\<lambda>k. futures ! k) (mset order)"
    by simp
  also have "\<dots> = mset (map (\<lambda>k. futures ! k) [0..<length futures])"
    using assms by simp
  also have "\<dots> = mset futures" by (simp add: map_nth)
  finally show ?thesis .
qed

lemma count_list_concat:
  "count_list (concat xss) x = sum_list (map (\<lambda>xs. count_list xs x) xss)"
  by (induction xss) simp_all

lemma sum_list_mset_cong:
  fixes f :: "'a \<Rightarrow> nat"
  assumes "mset xs = mset ys"
  shows "sum_list (map f xs) = sum_list (map f ys)"
proof -
  have "sum_list (map f xs) = sum_mset (image_mset f (mset xs))"
    by (simp add: sum_mset_sum_list [symmetric])
  also have "\<dots> = sum_mset (image_mset f (mset ys))" using assms by simp
  also have "\<dots> = sum_list (map f ys)" by (simp add: sum_mset_sum_list [symmetric])
  finally show ?thesis .
qed

lemma sum_list_counts_distinct:
  assumes "\<forall>r \<in> set rs. distinct (map td_id r)"
  shows "sum_list (map (\<lambda>r. count_list (map td_id r) x) rs)
         = length (filter (\<lambda>r. x \<in> td_id ` set r) rs)"
  using assms by (induction rs) (simp_all add: count_list_distinct)

lemma get_batch_recommendations_eq:
  assumes "track_ids \<noteq> []"
  shows "get_batch_recommendations radio completion_order
           \<lparr>req_track_ids = Some (JList track_ids), req_limit_per_track = l,
            req_remove_duplicates = rd\<rparr>
         = (200, Recommendations
              (fst (add_recommendations (rd \<noteq> Some False)
                 (concat (map (\<lambda>k. seed_results radio l track_ids ! k) completion_order))
                 ([], {}))))"
proof -
  have "(case rd of None \<Rightarrow> True | Some b \<Rightarrow> b) = (rd \<noteq> Some False)"
    by (cases rd) auto
  then show ?thesis
    using assms
    by (simp add: get_batch_recommendations_def seed_results_def merge_completed_concat Let_def)
qed

text \<open>
  C6. For a non-empty list of seeds, whatever the order of completion: with
  \<^verbatim>\<open>remove_duplicates\<close> true (or missing) every identifier that some seed's radio
  produced is exactly once in the output, and it is there with the first track that was
  accumulated under it, in completion order. With \<^verbatim>\<open>remove_duplicates\<close> false the
  output is all the results one after the other in completion order: an identifier is
  there as often as the seeds produced it, that is, once per seed that produced it when
  no seed's radio lists an identifier twice.
\<close>

theorem batch_recommendations_dedup:
  fixes radio :: "jval \<Rightarrow> int \<Rightarrow> string + (int \<times> 'b) list"
  assumes "track_ids \<noteq> []"
      and "mset completion_order = mset [0..<length track_ids]"
  shows "\<exists>out. get_batch_recommendations radio completion_order
                \<lparr>req_track_ids = Some (JList track_ids), req_limit_per_track = l,
                 req_remove_duplicates = rd\<rparr>
              = (200, Recommendations out)
         \<and> (rd \<noteq> Some False \<longrightarrow>
               (\<forall>x. count_list (map td_id out) x
                     = (if \<exists>r \<in> set (seed_results radio l track_ids). x \<in> td_id ` set r
                        then 1 else 0))
             \<and> (\<forall>x. find (\<lambda>t. td_id t = x) out
                     = find (\<lambda>t. td_id t = x)
                         (concat (map (\<lambda>k. seed_results radio l track_ids ! k) completion_order))))
         \<and> (rd = Some False \<longrightarrow>
               out = concat (map (\<lambda>k. seed_results radio l track_ids ! k) completion_order)
             \<and> (\<forall>x. count_list (map td_id out) x
                     = sum_list (map (\<lambda>r. count_list (map td_id r) x)
                         (seed_results radio l track_ids)))
             \<and> ((\<forall>r \<in> set (seed_results radio l track_ids). distinct (map td_id r)) \<longrightarrow>
                  (\<forall>x. count_list (map td_id out) x
                        = length (filter (\<lambda>r. x \<in> td_id ` set r)
                            (seed_results radio l track_ids)))))"
proof -
  let ?futures = "seed_results radio l track_ids"
  let ?completed = "map (\<lambda>k. ?futures ! k) completion_order"
  let ?out = "fst (add_recommendations (rd \<noteq> Some False) (concat ?completed) ([], {}))"
  have len: "length ?futures = length track_ids" by (simp add: seed_results_def)
  have perm: "mset ?completed = mset ?futures"
    using assms(2) len completed_mset [of completion_order ?futures] by simp
  then have sets: "set ?completed = set ?futures" by (rule mset_eq_setD)
  have eq: "get_batch_recommendations radio completion_order
              \<lparr>req_track_ids = Some (JList track_ids), req_limit_per_track = l,
               req_remove_duplicates = rd\<rparr> = (200, Recommendations ?out)"
    by (rule get_batch_recommendations_eq [OF assms(1)])
  have dedup: "rd \<noteq> Some False \<Longrightarrow> ?out = first_occurrences (concat ?completed) {}"
    by (simp add: add_recommendations_dedup)
  have keep: "rd = Some False \<Longrightarrow> ?out = concat ?completed"
    by (simp add: add_recommendations_keep)
  have once: "count_list (map td_id ?out) x
              = (if \<exists>r \<in> set ?futures. x \<in> td_id ` set r then 1 else 0)"
    if "rd \<noteq> Some False" for x
  proof -
    have "count_list (map td_id ?out) x = (if x \<in> set (map td_id ?out) then 1 else 0)"
      using dedup [OF that] by (simp add: count_list_distinct first_occurrences_distinct)
    moreover have "set (map td_id ?out) = td_id ` set (concat ?completed)"
      using dedup [OF that] first_occurrences_ids [of "concat ?completed" "{}"] by simp
    moreover have "x \<in> td_id ` set (concat ?completed) \<longleftrightarrow> (\<exists>r \<in> set ?futures. x \<in> td_id ` set r)"
      using sets by auto
    ultimately show ?thesis by simp
  qed
  have first: "find (\<lambda>t. td_id t = x) ?out = find (\<lambda>t. td_id t = x) (concat ?completed)"
    if "rd \<noteq> Some False" for x
    using dedup [OF that] by (simp add: first_occurrences_find)
  have total: "count_list (map td_id ?out) x
               = sum_list (map (\<lambda>r. count_list (map td_id r) x) ?futures)"
    if "rd = Some False" for x
  proof -
    have "count_list (map td_id ?out) x = count_list (concat (map (map td_id) ?completed)) x"
      using keep [OF that] by (simp add: map_concat)
    also have "\<dots> = sum_list (map (\<lambda>r. count_list (map td_id r) x) ?completed)"
      by (simp add: count_list_concat comp_def)
    also have "\<dots> = sum_list (map (\<lambda>r. count_list (map td_id r) x) ?futures)"
      by (rule sum_list_mset_cong [OF perm])
    finally show ?thesis .
  qed
  have per_seed: "count_list (map td_id ?out) x
                  = length (filter (\<lambda>r. x \<in> td_id ` set r) ?futures)"
    if "rd = Some False" and "\<forall>r \<in> set ?futures. distinct (map td_id r)" for x
    using total [OF that(1)] sum_list_counts_distinct [OF that(2)] by simp
  show ?thesis
    apply (rule exI [of _ ?out])
    using eq once first keep total per_seed by blast
qed

theorem batch_recommendations_dedup_witness:
  "mset [1, 0] = mset [0..<length [JInt 1, JInt 2]]
   \<and> get_batch_recommendations sample_radio [1, 0]
       \<lparr>req_track_ids = Some (JList [JInt 1, JInt 2]), req_limit_per_track = None,
        req_remove_duplicates = None\<rparr>
     = (200, Recommendations [sample_track 11 ''b'' 2, sample_track 12 ''c'' 2,
                              sample_track 10 ''a'' 1])
   \<and> get_batch_recommendations sample_radio [1, 0]
       \<lparr>req_track_ids = Some (JList [JInt 1, JInt 2]), req_limit_per_track = None,
        req_remove_duplicates = Some False\<rparr>
     = (200, Recommendations [sample_track 11 ''b'' 2, sample_track 12 ''c'' 2,
                              sample_track 10 ''a'' 1, sample_track 11 ''b'' 1])"
proof -
  have perm: "mset [1, 0] = mset [0..<length [JInt 1, JInt 2]]"
    by (simp add: upt_rec)
  have ne: "[JInt 1, JInt 2] \<noteq> []" by simp
  show ?thesis
    using perm
      batch_recommendations_dedup [OF ne perm, of sample_radio None None]
      batch_recommendations_dedup [OF ne perm, of sample_radio None "Some False"]
    by (simp add: rec_defs)
qed

subsection \<open>Properties of the playlists route\<close>

text \<open>
  C9: the route run on two playlists of which the second has no \<^verbatim>\<open>last_updated\<close>.
  The sort raises, and the answer is status 500 and no list.
\<close>

theorem get_user_playlists_missing_last_updated:
  "get_user_playlists
     (Inr [\<lparr>pl_id = ''p1'', pl_name = ''Road trip'', pl_last_updated = Some 1714521600, pl_more = ()\<rparr>,
           \<lparr>pl_id = ''p2'', pl_name = ''Untitled'', pl_last_updated = None, pl_more = ()\<rparr>])
   = (500, PlaylistsError TypeError)"
  by (simp add: get_user_playlists_def playlist_info_of_def py_sorted_reverse_def)

text \<open>
  When every playlist has a \<^verbatim>\<open>last_updated\<close>, the sort returns the same playlists
  with the latest first.
\<close>

lemma py_sorted_reverse_sorted:
  assumes "py_sorted_reverse key xs = Inr ys" and "\<forall>x \<in> set xs. key x \<noteq> None"
  shows "sorted (rev (map (\<lambda>x. the (key x)) ys)) \<and> mset ys = mset xs"
proof (cases "length xs < 2")
  case True
  then have "xs = [] \<or> (\<exists>x. xs = [x])"
    by (cases xs) (auto simp: length_Suc_conv)
  with assms True show ?thesis by (auto simp: py_sorted_reverse_def)
next
  case False
  with assms have ys: "ys = rev (sort_key (\<lambda>x. the (key x)) (rev xs))"
    by (auto simp: py_sorted_reverse_def)
  show ?thesis unfolding ys by (simp add: rev_map [symmetric])
qed

lemma py_sorted_reverse_returns:
  assumes "\<forall>x \<in> set xs. key x \<noteq> None"
  shows "\<exists>ys. py_sorted_reverse key xs = Inr ys"
proof (cases "length xs < 2")
  case True
  then show ?thesis by (simp add: py_sorted_reverse_def)
next
  case False
  moreover have "\<not> (\<exists>x \<in> set xs. key x = None)" using assms by blast
  ultimately show ?thesis by (simp add: py_sorted_reverse_def)
qed

lemma get_user_playlists_sorted:
  assumes "\<forall>p \<in> set pls. pl_last_updated p \<noteq> None"
  shows "\<exists>out. get_user_playlists (Inr pls) = (200, Playlists out)
             \<and> sorted (rev (map (\<lambda>x. the (pi_last_updated x)) out))
             \<and> mset (map pi_id out) = mset (map pl_id pls)"
proof -
  define infos where "infos = map (playlist_info_of :: 'a playlist \<Rightarrow> 'a playlist_info) pls"
  have keys: "\<forall>x \<in> set infos. pi_last_updated x \<noteq> None"
    using assms by (simp add: infos_def playlist_info_of_def)
  obtain out where out: "py_sorted_reverse pi_last_updated infos = Inr out"
    using py_sorted_reverse_returns [OF keys] by blast
  have srt: "sorted (rev (map (\<lambda>x. the (pi_last_updated x)) out))"
    and perm: "mset out = mset infos"
    using py_sorted_reverse_sorted [OF out keys] by simp_all
  have same_ids: "map pi_id infos = map pl_id pls"
    by (simp add: infos_def playlist_info_of_def)
  have "mset (map pi_id out) = image_mset pi_id (mset out)" by simp
  also have "\<dots> = image_mset pi_id (mset infos)" by (simp only: perm)
  also have "\<dots> = mset (map pi_id infos)" by simp
  finally have ids: "mset (map pi_id out) = mset (map pl_id pls)"
    by (simp only: same_ids)
  have "get_user_playlists (Inr pls) = (200, Playlists out)"
    using out by (simp add: get_user_playlists_def infos_def)
  with srt ids show ?thesis by blast
qed

end
